theory Spec2Isabelle
  imports Main "HOL-Library.Product_Lexorder" "HOL-Library.Multiset"
begin

section \<open>Dates\<close>

text \<open>
  A Python \<open>datetime.date\<close>: three fields, compared as the triple (year, month, day).
  The library only ever builds dates that satisfy \<open>valid_date\<close>.
\<close>

record date =
  year :: nat
  month :: nat
  day :: nat

definition date_key :: "date \<Rightarrow> nat \<times> nat \<times> nat" where
  "date_key d = (year d, month d, day d)"

definition is_leap :: "nat \<Rightarrow> bool" where
  "is_leap y = (if y mod 400 = 0 then True else if y mod 100 = 0 then False else y mod 4 = 0)"

definition days_in_month :: "nat \<Rightarrow> nat \<Rightarrow> nat" where
  "days_in_month y m =
     (if m = 2 then (if is_leap y then 29 else 28)
      else if m = 4 \<or> m = 6 \<or> m = 9 \<or> m = 11 then 30 else 31)"

definition valid_date :: "date \<Rightarrow> bool" where
  "valid_date d =
     (1 \<le> year d \<and> year d \<le> 9999 \<and> 1 \<le> month d \<and> month d \<le> 12 \<and>
      1 \<le> day d \<and> day d \<le> days_in_month (year d) (month d))"

text \<open>\<open>date.isoformat()\<close>: the format \<open>%04d-%02d-%02d\<close> of year, month and day.\<close>

definition digit_char :: "nat \<Rightarrow> char" where
  "digit_char n = char_of (48 + n)"

fun dec :: "nat \<Rightarrow> string" where
  "dec n = (if n < 10 then [digit_char n] else dec (n div 10) @ [digit_char (n mod 10)])"

declare dec.simps [simp del]

definition zfill :: "nat \<Rightarrow> string \<Rightarrow> string" where
  "zfill w s = replicate (w - length s) (CHR ''0'') @ s"

definition isoformat :: "date \<Rightarrow> string" where
  "isoformat d =
     zfill 4 (dec (year d)) @ ''-'' @ zfill 2 (dec (month d)) @ ''-'' @ zfill 2 (dec (day d))"

text \<open>
  The reading of an ISO-8601 calendar date in extended format, \<open>YYYY-MM-DD\<close>: ten
  characters, digits around two hyphens, naming a date of the calendar. It is the
  yardstick for what the JSON endpoint renders, and the date parser of the sample
  environment \<open>env0\<close> below.
\<close>

definition digit_val :: "char \<Rightarrow> nat option" where
  "digit_val c =
     (let n = (of_char c :: nat) in if 48 \<le> n \<and> n \<le> 57 then Some (n - 48) else None)"

fun digits_val :: "nat \<Rightarrow> string \<Rightarrow> nat option" where
  "digits_val acc [] = Some acc"
| "digits_val acc (c # cs) =
     (case digit_val c of None \<Rightarrow> None | Some v \<Rightarrow> digits_val (10 * acc + v) cs)"

definition iso8601_date :: "string \<Rightarrow> date option" where
  "iso8601_date s =
     (if length s = 10 \<and> s ! 4 = CHR ''-'' \<and> s ! 7 = CHR ''-'' then
        (case digits_val 0 (take 4 s) of
           None \<Rightarrow> None
         | Some y \<Rightarrow>
            (case digits_val 0 (take 2 (drop 5 s)) of
               None \<Rightarrow> None
             | Some m \<Rightarrow>
                (case digits_val 0 (drop 8 s) of
                   None \<Rightarrow> None
                 | Some d \<Rightarrow>
                    (let dt = \<lparr>year = y, month = m, day = d\<rparr>
                     in if valid_date dt then Some dt else None))))
      else None)"

section \<open>The reservation table\<close>

text \<open>
  \<open>class Reservation(db.Model)\<close>. The columns a form fills are the record
  \<open>fields\<close>; a stored row adds the primary key and the creation time, which the
  storage layer sets when the row is inserted. Columns declared without
  \<open>nullable=False\<close> may hold NULL (None).
\<close>

type_synonym datetime = int

record fields =
  guest_name :: string
  platform :: string
  check_in :: date
  check_out :: date
  adults :: "int option"
  children :: "int option"
  special_requests :: "string option"
  notes_col :: "string option"

record reservation = fields +
  id_col :: int
  created_at :: "datetime option"

datatype json = JNull | JInt int | JStr string | JArr "json list" | JObj "(string \<times> json) list"

definition json_int :: "int option \<Rightarrow> json" where
  "json_int v = (case v of None \<Rightarrow> JNull | Some n \<Rightarrow> JInt n)"

definition json_str :: "string option \<Rightarrow> json" where
  "json_str v = (case v of None \<Rightarrow> JNull | Some s \<Rightarrow> JStr s)"

definition to_dict :: "reservation \<Rightarrow> (string \<times> json) list" where
  "to_dict self =
     [(''id'', JInt (id_col self)),
      (''guest_name'', JStr (guest_name self)),
      (''platform'', JStr (platform self)),
      (''check_in'', JStr (isoformat (check_in self))),
      (''check_out'', JStr (isoformat (check_out self))),
      (''adults'', json_int (adults self)),
      (''children'', json_int (children self)),
      (''special_requests'', json_str (special_requests self)),
      (''notes'', json_str (notes_col self))]"

text \<open>\<open>Reservation.query.order_by(Reservation.check_in).all()\<close>\<close>

definition order_by_check_in :: "reservation list \<Rightarrow> reservation list" where
  "order_by_check_in rs = sort_key (\<lambda>r. date_key (check_in r)) rs"

text \<open>\<open>Reservation.query.get_or_404(id)\<close>: None stands for the 404 response.\<close>

definition get_or_404 :: "nat \<Rightarrow> reservation list \<Rightarrow> reservation option" where
  "get_or_404 n rs = find (\<lambda>r. id_col r = int n) rs"

text \<open>The key the storage layer gives a new row: one more than the largest in the table.\<close>

definition next_id :: "reservation list \<Rightarrow> int" where
  "next_id rs = fold max (map id_col rs) 0 + 1"

definition insert_row :: "datetime \<Rightarrow> 'a fields_scheme \<Rightarrow> reservation list \<Rightarrow> reservation list" where
  "insert_row now f rs =
     rs @ [\<lparr>guest_name = guest_name f, platform = platform f, check_in = check_in f,
            check_out = check_out f, adults = adults f, children = children f,
            special_requests = special_requests f, notes_col = notes_col f,
            id_col = next_id rs, created_at = Some now\<rparr>]"

definition update_row :: "reservation \<Rightarrow> reservation list \<Rightarrow> reservation list" where
  "update_row r rs = map (\<lambda>x. if id_col x = id_col r then r else x) rs"

definition delete_row :: "reservation \<Rightarrow> reservation list \<Rightarrow> reservation list" where
  "delete_row r rs = filter (\<lambda>x. id_col x \<noteq> id_col r) rs"

section \<open>Sessions, requests, responses\<close>

text \<open>
  The Flask session is a dictionary; the program uses two of its keys. A key that is
  absent is None, \<open>session[k] = True\<close> stores \<open>Some True\<close>, and
  \<open>session.pop(k, None)\<close> removes the key.
\<close>

record session =
  admin_logged_in :: "bool option"
  readonly_mode :: "bool option"

text \<open>\<open>session.get(k)\<close> used as a condition, and \<open>session.get(k, False)\<close>.\<close>

definition truthy :: "bool option \<Rightarrow> bool" where
  "truthy v = (case v of None \<Rightarrow> False | Some b \<Rightarrow> b)"

definition get_or_False :: "bool option \<Rightarrow> bool" where
  "get_or_False v = (case v of None \<Rightarrow> False | Some b \<Rightarrow> b)"

text \<open>
  The state a request sees and leaves: the session of the client and the committed rows of
  the table. Changes a handler makes to a loaded row without calling
  \<open>db.session.commit()\<close> are dropped when the request ends, so they never reach
  \<open>table\<close>.
\<close>

record state =
  sess :: session
  table :: "reservation list"

text \<open>
  What a handler reads from outside the program: the configured password, the library's
  parsers and clock, the text of an exception, and whether the storage engine refuses the
  commit of this request.
\<close>

datatype exn = BadRequestKeyError string | ValueError string | StorageError string

record env =
  ADMIN_PASSWORD :: string
  strptime :: "string \<Rightarrow> exn + date"
  int_of :: "string \<Rightarrow> exn + int"
  str_of :: "exn \<Rightarrow> string"
  utcnow :: datetime
  date_today :: date
  commit_error :: "exn option"

type_synonym form = "(string \<times> string) list"

datatype http_method = GET | POST

text \<open>
  The routes of the program, each with the methods its \<open>@app.route\<close> declares (a
  request with another method is answered by the framework and reaches no handler).
\<close>

datatype request =
    Req_admin_login http_method form
  | Req_admin_logout
  | Req_readonly_access
  | Req_exit_readonly
  | Req_index
  | Req_login_select
  | Req_add_reservation http_method form
  | Req_edit_reservation nat http_method form
  | Req_delete_reservation nat
  | Req_api_reservations
  | Req_calendar_view

datatype endpoint =
    EP_admin_login | EP_index | EP_login_select | EP_add_reservation | EP_edit_reservation nat

record view_model =
  reservations :: "reservation list"
  is_readonly :: bool
  is_admin :: bool
  today :: date

datatype response =
    Redirect endpoint
  | Render_admin_login
  | Render_login_select
  | Render_add_reservation
  | Render_edit_reservation reservation
  | Render_index view_model
  | Render_calendar view_model
  | Jsonify json
  | NotFound

text \<open>A notice is \<open>flash(message, category)\<close>.\<close>

type_synonym notice = "string \<times> string"

record outcome =
  response :: response
  flashed :: "notice list"
  after :: state

definition reply :: "response \<Rightarrow> notice list \<Rightarrow> state \<Rightarrow> outcome" where
  "reply r ns st = \<lparr>response = r, flashed = ns, after = st\<rparr>"

section \<open>The gates\<close>

definition require_admin :: "(state \<Rightarrow> outcome) \<Rightarrow> state \<Rightarrow> outcome" where
  "require_admin f st =
     (if \<not> truthy (admin_logged_in (sess st)) then
        reply (Redirect EP_admin_login)
          [(''Please login as admin to access this page'', ''error'')] st
      else f st)"

definition check_readonly :: "(state \<Rightarrow> outcome) \<Rightarrow> state \<Rightarrow> outcome" where
  "check_readonly f st =
     (if truthy (readonly_mode (sess st)) then
        reply (Redirect EP_index)
          [(''You are in read-only mode. You cannot modify reservations.'', ''error'')] st
      else f st)"

section \<open>Mode transitions\<close>

definition admin_login :: "env \<Rightarrow> http_method \<Rightarrow> form \<Rightarrow> state \<Rightarrow> outcome" where
  "admin_login e m fm st =
     (if truthy (admin_logged_in (sess st)) then reply (Redirect EP_index) [] st
      else if m = POST then
        (let password = map_of fm ''password'' in
         if password = Some (ADMIN_PASSWORD e) then
           reply (Redirect EP_index) [(''Logged in as Admin'', ''success'')]
             (st\<lparr>sess := (sess st)\<lparr>admin_logged_in := Some True, readonly_mode := None\<rparr>\<rparr>)
         else reply Render_admin_login [(''Invalid admin password'', ''error'')] st)
      else reply Render_admin_login [] st)"

definition admin_logout :: "state \<Rightarrow> outcome" where
  "admin_logout st =
     reply (Redirect EP_admin_login) [(''Logged out from admin mode'', ''success'')]
       (st\<lparr>sess := (sess st)\<lparr>admin_logged_in := None\<rparr>\<rparr>)"

definition readonly_access :: "state \<Rightarrow> outcome" where
  "readonly_access st =
     reply (Redirect EP_index) [(''Viewing in read-only mode'', ''success'')]
       (st\<lparr>sess := (sess st)\<lparr>readonly_mode := Some True, admin_logged_in := None\<rparr>\<rparr>)"

definition exit_readonly :: "state \<Rightarrow> outcome" where
  "exit_readonly st =
     reply (Redirect EP_login_select) [(''Exited read-only mode'', ''success'')]
       (st\<lparr>sess := (sess st)\<lparr>readonly_mode := None\<rparr>\<rparr>)"

section \<open>Views\<close>

definition view_of :: "env \<Rightarrow> state \<Rightarrow> view_model" where
  "view_of e st =
     \<lparr>reservations = order_by_check_in (table st),
      is_readonly = get_or_False (readonly_mode (sess st)),
      is_admin = get_or_False (admin_logged_in (sess st)),
      today = date_today e\<rparr>"

definition index :: "env \<Rightarrow> state \<Rightarrow> outcome" where
  "index e st =
     (if \<not> truthy (admin_logged_in (sess st)) \<and> \<not> truthy (readonly_mode (sess st)) then
        reply (Redirect EP_login_select) [] st
      else reply (Render_index (view_of e st)) [] st)"

definition login_select :: "state \<Rightarrow> outcome" where
  "login_select st =
     (if truthy (admin_logged_in (sess st)) \<or> truthy (readonly_mode (sess st)) then
        reply (Redirect EP_index) [] st
      else reply Render_login_select [] st)"

definition calendar_view :: "env \<Rightarrow> state \<Rightarrow> outcome" where
  "calendar_view e st =
     (if \<not> truthy (admin_logged_in (sess st)) \<and> \<not> truthy (readonly_mode (sess st)) then
        reply (Redirect EP_login_select) [] st
      else reply (Render_calendar (view_of e st)) [] st)"

definition api_reservations :: "state \<Rightarrow> outcome" where
  "api_reservations st = reply (Jsonify (JArr (map (\<lambda>r. JObj (to_dict r)) (table st)))) [] st"

section \<open>Reading the form\<close>

text \<open>
  \<open>request.form[k]\<close> raises when the key is missing; \<open>request.form.get(k, d)\<close>
  does not. Exceptions are values: \<open>Inl\<close> is the exception a \<open>try\<close> block
  catches, and \<open>bind_exn\<close> stops at the first one, in the order the source evaluates.
\<close>

definition form_required :: "form \<Rightarrow> string \<Rightarrow> exn + string" where
  "form_required fm k =
     (case map_of fm k of None \<Rightarrow> Inl (BadRequestKeyError k) | Some v \<Rightarrow> Inr v)"

definition form_get :: "form \<Rightarrow> string \<Rightarrow> string \<Rightarrow> string" where
  "form_get fm k d = (case map_of fm k of None \<Rightarrow> d | Some v \<Rightarrow> v)"

definition bind_exn :: "exn + 'a \<Rightarrow> ('a \<Rightarrow> exn + 'b) \<Rightarrow> exn + 'b" where
  "bind_exn m f = (case m of Inl x \<Rightarrow> Inl x | Inr v \<Rightarrow> f v)"

text \<open>The arguments of \<open>Reservation(...)\<close> in \<open>add_reservation\<close>.\<close>

definition read_form :: "env \<Rightarrow> form \<Rightarrow> exn + fields" where
  "read_form e fm =
     bind_exn (form_required fm ''guest_name'') (\<lambda>g.
     bind_exn (form_required fm ''platform'') (\<lambda>p.
     bind_exn (form_required fm ''check_in'') (\<lambda>ci_s.
     bind_exn (strptime e ci_s) (\<lambda>ci.
     bind_exn (form_required fm ''check_out'') (\<lambda>co_s.
     bind_exn (strptime e co_s) (\<lambda>co.
     bind_exn (form_required fm ''adults'') (\<lambda>a_s.
     bind_exn (int_of e a_s) (\<lambda>a.
     bind_exn (form_required fm ''children'') (\<lambda>c_s.
     bind_exn (int_of e c_s) (\<lambda>c.
       Inr \<lparr>guest_name = g, platform = p, check_in = ci, check_out = co,
            adults = Some a, children = Some c,
            special_requests = Some (form_get fm ''special_requests'' []),
            notes_col = Some (form_get fm ''notes'' [])\<rparr>))))))))))"

text \<open>
  The assignments of \<open>edit_reservation\<close> to the loaded row, in the same order. When one
  of them raises, the earlier ones have changed the loaded object only, which the handler
  then leaves uncommitted; the model returns the exception alone.
\<close>

definition assign_form :: "env \<Rightarrow> form \<Rightarrow> reservation \<Rightarrow> exn + reservation" where
  "assign_form e fm r =
     bind_exn (form_required fm ''guest_name'') (\<lambda>g.
     bind_exn (form_required fm ''platform'') (\<lambda>p.
     bind_exn (form_required fm ''check_in'') (\<lambda>ci_s.
     bind_exn (strptime e ci_s) (\<lambda>ci.
     bind_exn (form_required fm ''check_out'') (\<lambda>co_s.
     bind_exn (strptime e co_s) (\<lambda>co.
     bind_exn (form_required fm ''adults'') (\<lambda>a_s.
     bind_exn (int_of e a_s) (\<lambda>a.
     bind_exn (form_required fm ''children'') (\<lambda>c_s.
     bind_exn (int_of e c_s) (\<lambda>c.
       Inr (r\<lparr>guest_name := g, platform := p, check_in := ci, check_out := co,
              adults := Some a, children := Some c,
              special_requests := Some (form_get fm ''special_requests'' []),
              notes_col := Some (form_get fm ''notes'' [])\<rparr>)))))))))))"

section \<open>The mutating handlers\<close>

definition add_reservation_body :: "env \<Rightarrow> http_method \<Rightarrow> form \<Rightarrow> state \<Rightarrow> outcome" where
  "add_reservation_body e m fm st =
     (if m = POST then
        (case read_form e fm of
           Inl x \<Rightarrow>
             reply (Redirect EP_add_reservation)
               [(''Error adding reservation: '' @ str_of e x, ''error'')] st
         | Inr reservation \<Rightarrow>
             if date_key (check_out reservation) \<le> date_key (check_in reservation) then
               reply (Redirect EP_add_reservation)
                 [(''Check-out date must be after check-in date!'', ''error'')] st
             else
               (case commit_error e of
                  Some x \<Rightarrow>
                    reply (Redirect EP_add_reservation)
                      [(''Error adding reservation: '' @ str_of e x, ''error'')] st
                | None \<Rightarrow>
                    reply (Redirect EP_index) [(''Reservation added successfully!'', ''success'')]
                      (st\<lparr>table := insert_row (utcnow e) reservation (table st)\<rparr>)))
      else reply Render_add_reservation [] st)"

definition edit_reservation_body :: "env \<Rightarrow> nat \<Rightarrow> http_method \<Rightarrow> form \<Rightarrow> state \<Rightarrow> outcome" where
  "edit_reservation_body e n m fm st =
     (case get_or_404 n (table st) of
        None \<Rightarrow> reply NotFound [] st
      | Some loaded \<Rightarrow>
          if m = POST then
            (case assign_form e fm loaded of
               Inl x \<Rightarrow>
                 reply (Redirect (EP_edit_reservation n))
                   [(''Error updating reservation: '' @ str_of e x, ''error'')] st
             | Inr reservation \<Rightarrow>
                 if date_key (check_out reservation) \<le> date_key (check_in reservation) then
                   reply (Redirect (EP_edit_reservation n))
                     [(''Check-out date must be after check-in date!'', ''error'')] st
                 else
                   (case commit_error e of
                      Some x \<Rightarrow>
                        reply (Redirect (EP_edit_reservation n))
                          [(''Error updating reservation: '' @ str_of e x, ''error'')] st
                    | None \<Rightarrow>
                        reply (Redirect EP_index)
                          [(''Reservation updated successfully!'', ''success'')]
                          (st\<lparr>table := update_row reservation (table st)\<rparr>)))
          else reply (Render_edit_reservation loaded) [] st)"

definition delete_reservation_body :: "env \<Rightarrow> nat \<Rightarrow> state \<Rightarrow> outcome" where
  "delete_reservation_body e n st =
     (case get_or_404 n (table st) of
        None \<Rightarrow> reply NotFound [] st
      | Some reservation \<Rightarrow>
          (case commit_error e of
             Some x \<Rightarrow>
               reply (Redirect EP_index)
                 [(''Error deleting reservation: '' @ str_of e x, ''error'')] st
           | None \<Rightarrow>
               reply (Redirect EP_index) [(''Reservation deleted successfully!'', ''success'')]
                 (st\<lparr>table := delete_row reservation (table st)\<rparr>)))"

text \<open>
  The decorators as written: \<open>@require_admin\<close> above \<open>@check_readonly\<close> above the
  function, so the admin gate wraps the read-only gate, which wraps the body.
\<close>

definition add_reservation :: "env \<Rightarrow> http_method \<Rightarrow> form \<Rightarrow> state \<Rightarrow> outcome" where
  "add_reservation e m fm = require_admin (check_readonly (add_reservation_body e m fm))"

definition edit_reservation :: "env \<Rightarrow> nat \<Rightarrow> http_method \<Rightarrow> form \<Rightarrow> state \<Rightarrow> outcome" where
  "edit_reservation e n m fm = require_admin (check_readonly (edit_reservation_body e n m fm))"

definition delete_reservation :: "env \<Rightarrow> nat \<Rightarrow> state \<Rightarrow> outcome" where
  "delete_reservation e n = require_admin (check_readonly (delete_reservation_body e n))"

section \<open>Routing and reachable states\<close>

fun handle :: "env \<Rightarrow> request \<Rightarrow> state \<Rightarrow> outcome" where
  "handle e (Req_admin_login m fm) st = admin_login e m fm st"
| "handle e Req_admin_logout st = admin_logout st"
| "handle e Req_readonly_access st = readonly_access st"
| "handle e Req_exit_readonly st = exit_readonly st"
| "handle e Req_index st = index e st"
| "handle e Req_login_select st = login_select st"
| "handle e (Req_add_reservation m fm) st = add_reservation e m fm st"
| "handle e (Req_edit_reservation n m fm) st = edit_reservation e n m fm st"
| "handle e (Req_delete_reservation n) st = delete_reservation e n st"
| "handle e Req_api_reservations st = api_reservations st"
| "handle e Req_calendar_view st = calendar_view e st"

text \<open>
  A client starts with an empty session, over any table; every later state is the one some
  request left behind.
\<close>

definition new_session :: session where
  "new_session = \<lparr>admin_logged_in = None, readonly_mode = None\<rparr>"

inductive reachable :: "state \<Rightarrow> bool" where
  start: "reachable \<lparr>sess = new_session, table = rs\<rparr>"
| step: "reachable st \<Longrightarrow> reachable (after (handle e req st))"

definition at_most_one_mode :: "session \<Rightarrow> bool" where
  "at_most_one_mode s = (\<not> (truthy (admin_logged_in s) \<and> truthy (readonly_mode s)))"

definition is_error_notice :: "notice \<Rightarrow> bool" where
  "is_error_notice n = (snd n = ''error'')"

section \<open>A sample environment\<close>

text \<open>
  Concrete library functions for running the handlers on sample requests: dates are read
  in the form \<open>YYYY-MM-DD\<close> and integers as plain digit strings, which the library's
  \<open>strptime\<close> with \<open>'%Y-%m-%d'\<close> and \<open>int\<close> read the same way. The password is the
  fallback the source configures.
\<close>

definition strptime_ymd :: "string \<Rightarrow> exn + date" where
  "strptime_ymd s = (case iso8601_date s of None \<Rightarrow> Inl (ValueError s) | Some d \<Rightarrow> Inr d)"

definition int_of_digits :: "string \<Rightarrow> exn + int" where
  "int_of_digits s =
     (if s = [] then Inl (ValueError s)
      else case digits_val 0 s of None \<Rightarrow> Inl (ValueError s) | Some n \<Rightarrow> Inr (int n))"

definition exn_text :: "exn \<Rightarrow> string" where
  "exn_text x = (case x of BadRequestKeyError k \<Rightarrow> k | ValueError s \<Rightarrow> s | StorageError s \<Rightarrow> s)"

definition env0 :: env where
  "env0 =
     \<lparr>ADMIN_PASSWORD = ''Jezera2017'', strptime = strptime_ymd, int_of = int_of_digits,
      str_of = exn_text, utcnow = 0, date_today = \<lparr>year = 2024, month = 3, day = 1\<rparr>,
      commit_error = None\<rparr>"

definition smith :: reservation where
  "smith =
     \<lparr>guest_name = ''A. Smith'', platform = ''Airbnb'',
      check_in = \<lparr>year = 2024, month = 3, day = 1\<rparr>,
      check_out = \<lparr>year = 2024, month = 3, day = 5\<rparr>,
      adults = Some 2, children = Some 0, special_requests = Some [], notes_col = Some [],
      id_col = 1, created_at = Some 0\<rparr>"

definition admin_session :: session where
  "admin_session = \<lparr>admin_logged_in = Some True, readonly_mode = None\<rparr>"

definition readonly_session :: session where
  "readonly_session = \<lparr>admin_logged_in = None, readonly_mode = Some True\<rparr>"

definition admin_state :: state where
  "admin_state = \<lparr>sess = admin_session, table = [smith]\<rparr>"

definition readonly_state :: state where
  "readonly_state = \<lparr>sess = readonly_session, table = [smith]\<rparr>"

definition anonymous_state :: state where
  "anonymous_state = \<lparr>sess = new_session, table = [smith]\<rparr>"

text \<open>The routes the access claims list.\<close>

fun data_route :: "request \<Rightarrow> bool" where
  "data_route Req_index = True"
| "data_route Req_calendar_view = True"
| "data_route (Req_add_reservation m fm) = True"
| "data_route (Req_edit_reservation n m fm) = True"
| "data_route (Req_delete_reservation n) = True"
| "data_route _ = False"

fun mutating_route :: "request \<Rightarrow> bool" where
  "mutating_route (Req_add_reservation m fm) = True"
| "mutating_route (Req_edit_reservation n m fm) = True"
| "mutating_route (Req_delete_reservation n) = True"
| "mutating_route _ = False"

definition jones :: reservation where
  "jones =
     \<lparr>guest_name = ''B. Jones'', platform = ''Booking'',
      check_in = \<lparr>year = 2024, month = 2, day = 10\<rparr>,
      check_out = \<lparr>year = 2024, month = 2, day = 12\<rparr>,
      adults = Some 1, children = Some 0, special_requests = None, notes_col = None,
      id_col = 2, created_at = Some 0\<rparr>"

definition two_rows_state :: state where
  "two_rows_state = \<lparr>sess = readonly_session, table = [smith, jones]\<rparr>"

definition bad_dates_form :: form where
  "bad_dates_form =
     [(''guest_name'', ''A. Smith''), (''platform'', ''Airbnb''),
      (''check_in'', ''2024-03-05''), (''check_out'', ''2024-03-01''),
      (''adults'', ''2''), (''children'', ''0'')]"



section \<open>The session invariant\<close>

lemmas gate_simps = reply_def require_admin_def check_readonly_def

lemma handle_keeps_mode_invariant:
  assumes "at_most_one_mode (sess st)"
  shows "at_most_one_mode (sess (after (handle e req st)))"
proof (cases req)
  case (Req_admin_login m fm)
  with assms show ?thesis
    by (simp add: admin_login_def reply_def at_most_one_mode_def truthy_def Let_def)
next
  case (Req_add_reservation m fm)
  with assms show ?thesis
    by (simp add: add_reservation_def add_reservation_body_def gate_simps
        split: sum.splits option.splits)
next
  case (Req_edit_reservation n m fm)
  with assms show ?thesis
    by (simp add: edit_reservation_def edit_reservation_body_def gate_simps
        split: sum.splits option.splits)
next
  case (Req_delete_reservation n)
  with assms show ?thesis
    by (simp add: delete_reservation_def delete_reservation_body_def gate_simps
        split: sum.splits option.splits)
qed (use assms in \<open>simp_all add: admin_logout_def readonly_access_def exit_readonly_def index_def
      login_select_def calendar_view_def api_reservations_def reply_def at_most_one_mode_def
      truthy_def\<close>)

lemma reachable_at_most_one_mode: "reachable st \<Longrightarrow> at_most_one_mode (sess st)"
proof (induction rule: reachable.induct)
  case (start rs)
  show ?case by (simp add: at_most_one_mode_def new_session_def truthy_def)
next
  case (step st e req)
  from step.IH show ?case by (rule handle_keeps_mode_invariant)
qed

lemma reachable_admin_state: "reachable admin_state"
proof -
  have "after (handle env0 (Req_admin_login POST [(''password'', ''Jezera2017'')])
          \<lparr>sess = new_session, table = [smith]\<rparr>) = admin_state"
    by (simp add: admin_login_def reply_def new_session_def truthy_def env0_def
        admin_state_def admin_session_def)
  then show ?thesis
    using reachable.step[OF reachable.start,
        of env0 "Req_admin_login POST [(''password'', ''Jezera2017'')]" "[smith]"]
    by simp
qed

lemma reachable_readonly_state: "reachable readonly_state"
proof -
  have "after (handle env0 Req_readonly_access \<lparr>sess = new_session, table = [smith]\<rparr>)
          = readonly_state"
    by (simp add: readonly_access_def reply_def new_session_def readonly_state_def
        readonly_session_def)
  then show ?thesis
    using reachable.step[OF reachable.start, of env0 Req_readonly_access "[smith]"]
    by simp
qed

text \<open>
  C10. When \<open>admin_logged_in\<close> is already set, a GET or a POST to \<open>/admin-login\<close>
  redirects to the listing and leaves the whole state, so both session flags, as it was.
  The outcome is the same for every method, every submitted form and every configured
  password: the password is not compared.
\<close>

theorem admin_login_when_already_admin:
  assumes "truthy (admin_logged_in (sess st))"
  shows "response (handle e (Req_admin_login m fm) st) = Redirect EP_index
       \<and> after (handle e (Req_admin_login m fm) st) = st
       \<and> (\<forall>e' m' fm'. handle e' (Req_admin_login m' fm') st = handle e (Req_admin_login m fm) st)"
  using assms by (simp add: admin_login_def reply_def)

theorem admin_login_when_already_admin_witness:
  "truthy (admin_logged_in (sess admin_state))
   \<and> response (handle env0 (Req_admin_login POST [(''password'', ''guess'')]) admin_state)
       = Redirect EP_index
   \<and> after (handle env0 (Req_admin_login POST [(''password'', ''guess'')]) admin_state)
       = admin_state"
proof -
  have h: "truthy (admin_logged_in (sess admin_state))"
    by (simp add: admin_state_def admin_session_def truthy_def)
  from admin_login_when_already_admin[OF h, of env0 POST "[(''password'', ''guess'')]"] h
  show ?thesis by simp
qed

text \<open>
  C7. On the three mutating routes the admin gate decides first, on
  \<open>admin_logged_in\<close> alone, and the read-only gate second, on \<open>readonly_mode\<close> alone;
  this holds in every state, reachable or not. In a reachable state with
  \<open>admin_logged_in\<close> set the read-only gate never fires: the request reaches the body.
\<close>

theorem gates_compose_admin_first:
  "handle e (Req_add_reservation m fm) st =
     (if \<not> truthy (admin_logged_in (sess st)) then
        reply (Redirect EP_admin_login)
          [(''Please login as admin to access this page'', ''error'')] st
      else if truthy (readonly_mode (sess st)) then
        reply (Redirect EP_index)
          [(''You are in read-only mode. You cannot modify reservations.'', ''error'')] st
      else add_reservation_body e m fm st)
   \<and> handle e (Req_edit_reservation n m fm) st =
     (if \<not> truthy (admin_logged_in (sess st)) then
        reply (Redirect EP_admin_login)
          [(''Please login as admin to access this page'', ''error'')] st
      else if truthy (readonly_mode (sess st)) then
        reply (Redirect EP_index)
          [(''You are in read-only mode. You cannot modify reservations.'', ''error'')] st
      else edit_reservation_body e n m fm st)
   \<and> handle e (Req_delete_reservation n) st =
     (if \<not> truthy (admin_logged_in (sess st)) then
        reply (Redirect EP_admin_login)
          [(''Please login as admin to access this page'', ''error'')] st
      else if truthy (readonly_mode (sess st)) then
        reply (Redirect EP_index)
          [(''You are in read-only mode. You cannot modify reservations.'', ''error'')] st
      else delete_reservation_body e n st)
   \<and> (reachable st \<and> truthy (admin_logged_in (sess st)) \<longrightarrow>
        handle e (Req_add_reservation m fm) st = add_reservation_body e m fm st
      \<and> handle e (Req_edit_reservation n m fm) st = edit_reservation_body e n m fm st
      \<and> handle e (Req_delete_reservation n) st = delete_reservation_body e n st)"
proof -
  have "reachable st \<Longrightarrow> truthy (admin_logged_in (sess st)) \<Longrightarrow> \<not> truthy (readonly_mode (sess st))"
    using reachable_at_most_one_mode[of st] by (simp add: at_most_one_mode_def)
  then show ?thesis
    by (auto simp add: add_reservation_def edit_reservation_def delete_reservation_def
        require_admin_def check_readonly_def)
qed

theorem gates_compose_admin_first_witness:
  "reachable admin_state \<and> truthy (admin_logged_in (sess admin_state))
   \<and> handle env0 (Req_add_reservation GET []) admin_state
       = add_reservation_body env0 GET [] admin_state
   \<and> response (handle env0 (Req_add_reservation GET []) admin_state) = Render_add_reservation"
proof -
  have h: "truthy (admin_logged_in (sess admin_state))"
    by (simp add: admin_state_def admin_session_def truthy_def)
  have r: "\<not> truthy (readonly_mode (sess admin_state))"
    by (simp add: admin_state_def admin_session_def truthy_def)
  from gates_compose_admin_first[of env0 GET "[]" admin_state 1] reachable_admin_state h r
  show ?thesis by (simp add: add_reservation_body_def reply_def)
qed

text \<open>
  C3. In every reachable state, each of the four mode transitions leaves at most one of
  the two flags set. After a POST to \<open>/admin-login\<close> with the configured password
  \<open>admin_logged_in\<close> is set and \<open>readonly_mode\<close> is not; after \<open>/readonly\<close> it is
  the other way round.
\<close>

theorem mode_transitions_keep_exclusion:
  assumes "reachable st"
  shows "(map_of fm ''password'' = Some (ADMIN_PASSWORD e) \<longrightarrow>
            truthy (admin_logged_in (sess (after (handle e (Req_admin_login POST fm) st))))
          \<and> \<not> truthy (readonly_mode (sess (after (handle e (Req_admin_login POST fm) st))))
          \<and> at_most_one_mode (sess (after (handle e (Req_admin_login POST fm) st))))
       \<and> truthy (readonly_mode (sess (after (handle e Req_readonly_access st))))
       \<and> \<not> truthy (admin_logged_in (sess (after (handle e Req_readonly_access st))))
       \<and> at_most_one_mode (sess (after (handle e Req_readonly_access st)))
       \<and> at_most_one_mode (sess (after (handle e Req_admin_logout st)))
       \<and> at_most_one_mode (sess (after (handle e Req_exit_readonly st)))"
proof -
  have inv: "at_most_one_mode (sess st)" using assms by (rule reachable_at_most_one_mode)
  then show ?thesis
    by (simp add: admin_login_def readonly_access_def admin_logout_def exit_readonly_def
        reply_def at_most_one_mode_def truthy_def)
qed

theorem mode_transitions_keep_exclusion_witness:
  "reachable readonly_state
   \<and> map_of [(''password'', ''Jezera2017'')] ''password'' = Some (ADMIN_PASSWORD env0)
   \<and> truthy (admin_logged_in (sess (after
        (handle env0 (Req_admin_login POST [(''password'', ''Jezera2017'')]) readonly_state))))
   \<and> \<not> truthy (readonly_mode (sess (after
        (handle env0 (Req_admin_login POST [(''password'', ''Jezera2017'')]) readonly_state))))
   \<and> at_most_one_mode (sess (after (handle env0 Req_exit_readonly readonly_state)))"
proof -
  have p: "map_of [(''password'', ''Jezera2017'')] ''password'' = Some (ADMIN_PASSWORD env0)"
    by (simp add: env0_def)
  from mode_transitions_keep_exclusion[OF reachable_readonly_state,
      of "[(''password'', ''Jezera2017'')]" env0] p reachable_readonly_state
  show ?thesis by simp
qed

text \<open>
  C4. In a session with neither flag set, a request to \<open>/\<close>, \<open>/calendar\<close>,
  \<open>/add\<close>, \<open>/edit/<id>\<close> or \<open>/delete/<id>\<close> is answered by a redirect to the
  mode-selection page or to the admin-login page, and the state (the table with it) is
  left as it was. For \<open>/edit\<close> and \<open>/delete\<close> this holds whether or not the id exists:
  the gate runs before the row is looked up.
\<close>

theorem anonymous_is_redirected:
  assumes "\<not> truthy (admin_logged_in (sess st))" and "\<not> truthy (readonly_mode (sess st))"
    and "data_route req"
  shows "(response (handle e req st) = Redirect EP_login_select
          \<or> response (handle e req st) = Redirect EP_admin_login)
       \<and> after (handle e req st) = st"
  using assms
  by (cases req)
    (simp_all add: index_def calendar_view_def add_reservation_def edit_reservation_def
      delete_reservation_def gate_simps)

theorem anonymous_is_redirected_witness:
  "\<not> truthy (admin_logged_in (sess anonymous_state))
   \<and> \<not> truthy (readonly_mode (sess anonymous_state))
   \<and> data_route (Req_delete_reservation 1)
   \<and> response (handle env0 (Req_delete_reservation 1) anonymous_state) = Redirect EP_admin_login
   \<and> after (handle env0 (Req_delete_reservation 1) anonymous_state) = anonymous_state"
proof -
  have a: "\<not> truthy (admin_logged_in (sess anonymous_state))"
    and r: "\<not> truthy (readonly_mode (sess anonymous_state))"
    by (simp_all add: anonymous_state_def new_session_def truthy_def)
  have d: "data_route (Req_delete_reservation 1)" by simp
  have "response (handle env0 (Req_delete_reservation 1) anonymous_state) \<noteq> Redirect EP_login_select"
    using a by (simp add: delete_reservation_def gate_simps)
  with anonymous_is_redirected[OF a r d, of env0] a r show ?thesis by simp
qed

text \<open>
  C5, as the code has it. In a session with \<open>readonly_mode\<close> set, a request to
  \<open>/add\<close>, \<open>/edit/<id>\<close> or \<open>/delete/<id>\<close> changes nothing and is answered by a
  redirect. The admin gate runs first, so the redirect goes to the admin-login page when
  \<open>admin_logged_in\<close> is not set, which is the case in every reachable read-only
  session; it goes to the listing only when both flags are set.
\<close>

theorem readonly_session_cannot_mutate:
  assumes "truthy (readonly_mode (sess st))" and "mutating_route req"
  shows "after (handle e req st) = st
       \<and> response (handle e req st) =
           (if truthy (admin_logged_in (sess st)) then Redirect EP_index
            else Redirect EP_admin_login)
       \<and> (reachable st \<longrightarrow> response (handle e req st) = Redirect EP_admin_login)"
proof -
  have "reachable st \<Longrightarrow> \<not> truthy (admin_logged_in (sess st))"
    using reachable_at_most_one_mode[of st] assms(1) by (auto simp add: at_most_one_mode_def)
  with assms show ?thesis
    by (cases req)
      (auto simp add: add_reservation_def edit_reservation_def delete_reservation_def gate_simps)
qed

theorem readonly_session_cannot_mutate_witness:
  "truthy (readonly_mode (sess readonly_state)) \<and> mutating_route (Req_delete_reservation 1)
   \<and> reachable readonly_state
   \<and> after (handle env0 (Req_delete_reservation 1) readonly_state) = readonly_state
   \<and> response (handle env0 (Req_delete_reservation 1) readonly_state) = Redirect EP_admin_login"
proof -
  have r: "truthy (readonly_mode (sess readonly_state))"
    by (simp add: readonly_state_def readonly_session_def truthy_def)
  have m: "mutating_route (Req_delete_reservation 1)" by simp
  have a: "\<not> truthy (admin_logged_in (sess readonly_state))"
    by (simp add: readonly_state_def readonly_session_def truthy_def)
  from readonly_session_cannot_mutate[OF r m, of env0] r a reachable_readonly_state
  show ?thesis by simp
qed

text \<open>
  C5 as stated fails: the read-only session that \<open>/readonly\<close> creates is sent to the
  admin-login page by \<open>/add\<close>, not to the listing.
\<close>

theorem readonly_add_is_sent_to_admin_login:
  "reachable readonly_state \<and> truthy (readonly_mode (sess readonly_state))
   \<and> response (handle env0 (Req_add_reservation GET []) readonly_state) = Redirect EP_admin_login
   \<and> response (handle env0 (Req_add_reservation GET []) readonly_state) \<noteq> Redirect EP_index"
  using reachable_readonly_state
  by (simp add: add_reservation_def gate_simps readonly_state_def readonly_session_def truthy_def)

lemma sorted_order_by_check_in:
  "sorted (map (\<lambda>r. date_key (check_in r)) (order_by_check_in rs))"
  by (simp add: order_by_check_in_def)

lemma mset_order_by_check_in: "mset (order_by_check_in rs) = mset rs"
  by (simp add: order_by_check_in_def)

text \<open>
  C9. In a session with either flag set, the listing and the calendar handler render the
  same view model: all rows of the table (the same multiset), in ascending order of
  \<open>check_in\<close>, with the two mode flags and the current date.
\<close>

theorem listing_and_calendar_pass_sorted_rows:
  assumes "truthy (admin_logged_in (sess st)) \<or> truthy (readonly_mode (sess st))"
  shows "response (handle e Req_index st) = Render_index (view_of e st)
       \<and> response (handle e Req_calendar_view st) = Render_calendar (view_of e st)
       \<and> sorted (map (\<lambda>r. date_key (check_in r)) (reservations (view_of e st)))
       \<and> mset (reservations (view_of e st)) = mset (table st)
       \<and> is_admin (view_of e st) = truthy (admin_logged_in (sess st))
       \<and> is_readonly (view_of e st) = truthy (readonly_mode (sess st))
       \<and> today (view_of e st) = date_today e"
  using assms
  by (auto simp add: index_def calendar_view_def reply_def view_of_def sorted_order_by_check_in
      mset_order_by_check_in get_or_False_def truthy_def)

lemma order_two_rows: "order_by_check_in [smith, jones] = [jones, smith]"
  by (simp add: order_by_check_in_def smith_def jones_def date_key_def)

theorem listing_and_calendar_pass_sorted_rows_witness:
  "truthy (readonly_mode (sess two_rows_state))
   \<and> response (handle env0 Req_index two_rows_state) = Render_index (view_of env0 two_rows_state)
   \<and> response (handle env0 Req_calendar_view two_rows_state)
       = Render_calendar (view_of env0 two_rows_state)
   \<and> reservations (view_of env0 two_rows_state) = [jones, smith]
   \<and> \<not> is_admin (view_of env0 two_rows_state)
   \<and> is_readonly (view_of env0 two_rows_state)
   \<and> today (view_of env0 two_rows_state) = \<lparr>year = 2024, month = 3, day = 1\<rparr>"
proof -
  have r: "truthy (readonly_mode (sess two_rows_state))"
    and a: "\<not> truthy (admin_logged_in (sess two_rows_state))"
    by (simp_all add: two_rows_state_def readonly_session_def truthy_def)
  have o: "reservations (view_of env0 two_rows_state) = [jones, smith]"
    by (simp add: view_of_def two_rows_state_def order_two_rows)
  have d: "date_today env0 = \<lparr>year = 2024, month = 3, day = 1\<rparr>" by (simp add: env0_def)
  from listing_and_calendar_pass_sorted_rows[of two_rows_state env0] r a o d
  show ?thesis by simp
qed

section \<open>Validation on create and update\<close>

lemma read_form_dates:
  assumes "read_form e fm = Inr f"
    and "map_of fm ''check_in'' = Some ci_s" and "strptime e ci_s = Inr ci"
    and "map_of fm ''check_out'' = Some co_s" and "strptime e co_s = Inr co"
  shows "check_in f = ci \<and> check_out f = co"
  using assms
  by (auto simp add: read_form_def bind_exn_def form_required_def split: option.splits sum.splits)

lemma assign_form_dates:
  assumes "assign_form e fm r = Inr r'"
    and "map_of fm ''check_in'' = Some ci_s" and "strptime e ci_s = Inr ci"
    and "map_of fm ''check_out'' = Some co_s" and "strptime e co_s = Inr co"
  shows "check_in r' = ci \<and> check_out r' = co"
  using assms
  by (auto simp add: assign_form_def bind_exn_def form_required_def split: option.splits sum.splits)

lemma strptime_0305: "strptime env0 ''2024-03-05'' = Inr \<lparr>year = 2024, month = 3, day = 5\<rparr>"
  by (simp add: env0_def strptime_ymd_def iso8601_date_def digit_val_def valid_date_def
      days_in_month_def is_leap_def Let_def)

lemma strptime_0301: "strptime env0 ''2024-03-01'' = Inr \<lparr>year = 2024, month = 3, day = 1\<rparr>"
  by (simp add: env0_def strptime_ymd_def iso8601_date_def digit_val_def valid_date_def
      days_in_month_def is_leap_def Let_def)

text \<open>
  C1. An admin session that is not read-only posts to \<open>/add\<close> a form whose two dates
  parse, with \<open>check_out \<le> check_in\<close>. Whatever the other fields hold, the answer is a
  redirect to the add form, the state and so the table are unchanged, and the notices
  flashed are error notices (at least one).
\<close>

theorem add_rejects_unordered_dates:
  assumes "truthy (admin_logged_in (sess st))" and "\<not> truthy (readonly_mode (sess st))"
    and "map_of fm ''check_in'' = Some ci_s" and "strptime e ci_s = Inr ci"
    and "map_of fm ''check_out'' = Some co_s" and "strptime e co_s = Inr co"
    and "date_key co \<le> date_key ci"
  shows "response (handle e (Req_add_reservation POST fm) st) = Redirect EP_add_reservation
       \<and> after (handle e (Req_add_reservation POST fm) st) = st
       \<and> table (after (handle e (Req_add_reservation POST fm) st)) = table st
       \<and> flashed (handle e (Req_add_reservation POST fm) st) \<noteq> []
       \<and> list_all is_error_notice (flashed (handle e (Req_add_reservation POST fm) st))"
proof (cases "read_form e fm")
  case (Inl x)
  with assms(1,2) show ?thesis
    by (simp add: add_reservation_def add_reservation_body_def gate_simps is_error_notice_def)
next
  case (Inr f)
  from read_form_dates[OF Inr assms(3-6)] assms(7)
  have "date_key (check_out f) \<le> date_key (check_in f)" by simp
  with Inr assms(1,2) show ?thesis
    by (simp add: add_reservation_def add_reservation_body_def gate_simps is_error_notice_def)
qed

theorem add_rejects_unordered_dates_witness:
  "truthy (admin_logged_in (sess admin_state)) \<and> \<not> truthy (readonly_mode (sess admin_state))
   \<and> map_of bad_dates_form ''check_in'' = Some ''2024-03-05''
   \<and> strptime env0 ''2024-03-05'' = Inr \<lparr>year = 2024, month = 3, day = 5\<rparr>
   \<and> map_of bad_dates_form ''check_out'' = Some ''2024-03-01''
   \<and> strptime env0 ''2024-03-01'' = Inr \<lparr>year = 2024, month = 3, day = 1\<rparr>
   \<and> date_key \<lparr>year = 2024, month = 3, day = 1\<rparr> \<le> date_key \<lparr>year = 2024, month = 3, day = 5\<rparr>
   \<and> response (handle env0 (Req_add_reservation POST bad_dates_form) admin_state)
       = Redirect EP_add_reservation
   \<and> table (after (handle env0 (Req_add_reservation POST bad_dates_form) admin_state)) = [smith]"
proof -
  have a: "truthy (admin_logged_in (sess admin_state))"
    and r: "\<not> truthy (readonly_mode (sess admin_state))"
    by (simp_all add: admin_state_def admin_session_def truthy_def)
  have ci: "map_of bad_dates_form ''check_in'' = Some ''2024-03-05''"
    and co: "map_of bad_dates_form ''check_out'' = Some ''2024-03-01''"
    by (simp_all add: bad_dates_form_def)
  have le: "date_key \<lparr>year = 2024, month = 3, day = 1\<rparr> \<le> date_key \<lparr>year = 2024, month = 3, day = 5\<rparr>"
    by (simp add: date_key_def)
  have t: "table admin_state = [smith]" by (simp add: admin_state_def)
  from add_rejects_unordered_dates[OF a r ci strptime_0305 co strptime_0301 le] a r ci co le t
    strptime_0305 strptime_0301
  show ?thesis by simp
qed

text \<open>
  C2. An admin session that is not read-only posts to \<open>/edit/<id>\<close>, the id exists, and
  either reading the form raises (a missing field, a date or an integer that does not
  parse) or both dates parse with \<open>check_out \<le> check_in\<close>. The answer is a redirect to
  the edit form of the same id, the state is unchanged, so the row with that id is the
  row it was, and the notices flashed are error notices (at least one).
\<close>

theorem edit_failure_keeps_record:
  assumes "truthy (admin_logged_in (sess st))" and "\<not> truthy (readonly_mode (sess st))"
    and "get_or_404 n (table st) = Some r"
    and "(\<exists>x. assign_form e fm r = Inl x)
         \<or> (map_of fm ''check_in'' = Some ci_s \<and> strptime e ci_s = Inr ci
            \<and> map_of fm ''check_out'' = Some co_s \<and> strptime e co_s = Inr co
            \<and> date_key co \<le> date_key ci)"
  shows "response (handle e (Req_edit_reservation n POST fm) st) = Redirect (EP_edit_reservation n)
       \<and> after (handle e (Req_edit_reservation n POST fm) st) = st
       \<and> get_or_404 n (table (after (handle e (Req_edit_reservation n POST fm) st))) = Some r
       \<and> flashed (handle e (Req_edit_reservation n POST fm) st) \<noteq> []
       \<and> list_all is_error_notice (flashed (handle e (Req_edit_reservation n POST fm) st))"
proof (cases "assign_form e fm r")
  case (Inl x)
  with assms(1-3) show ?thesis
    by (simp add: edit_reservation_def edit_reservation_body_def gate_simps is_error_notice_def)
next
  case (Inr r')
  with assms(4) have d: "map_of fm ''check_in'' = Some ci_s" "strptime e ci_s = Inr ci"
    "map_of fm ''check_out'' = Some co_s" "strptime e co_s = Inr co"
    and le: "date_key co \<le> date_key ci"
    by simp_all
  from assign_form_dates[OF Inr d] le
  have "date_key (check_out r') \<le> date_key (check_in r')" by simp
  with Inr assms(1-3) show ?thesis
    by (simp add: edit_reservation_def edit_reservation_body_def gate_simps is_error_notice_def)
qed

theorem edit_failure_keeps_record_witness:
  "truthy (admin_logged_in (sess admin_state)) \<and> \<not> truthy (readonly_mode (sess admin_state))
   \<and> get_or_404 1 (table admin_state) = Some smith
   \<and> map_of bad_dates_form ''check_in'' = Some ''2024-03-05''
   \<and> strptime env0 ''2024-03-05'' = Inr \<lparr>year = 2024, month = 3, day = 5\<rparr>
   \<and> map_of bad_dates_form ''check_out'' = Some ''2024-03-01''
   \<and> strptime env0 ''2024-03-01'' = Inr \<lparr>year = 2024, month = 3, day = 1\<rparr>
   \<and> date_key \<lparr>year = 2024, month = 3, day = 1\<rparr> \<le> date_key \<lparr>year = 2024, month = 3, day = 5\<rparr>
   \<and> response (handle env0 (Req_edit_reservation 1 POST bad_dates_form) admin_state)
       = Redirect (EP_edit_reservation 1)
   \<and> get_or_404 1 (table (after (handle env0 (Req_edit_reservation 1 POST bad_dates_form)
        admin_state))) = Some smith"
proof -
  have a: "truthy (admin_logged_in (sess admin_state))"
    and r: "\<not> truthy (readonly_mode (sess admin_state))"
    by (simp_all add: admin_state_def admin_session_def truthy_def)
  have g: "get_or_404 1 (table admin_state) = Some smith"
    by (simp add: get_or_404_def admin_state_def smith_def)
  have ci: "map_of bad_dates_form ''check_in'' = Some ''2024-03-05''"
    and co: "map_of bad_dates_form ''check_out'' = Some ''2024-03-01''"
    by (simp_all add: bad_dates_form_def)
  have le: "date_key \<lparr>year = 2024, month = 3, day = 1\<rparr> \<le> date_key \<lparr>year = 2024, month = 3, day = 5\<rparr>"
    by (simp add: date_key_def)
  have f: "(\<exists>x. assign_form env0 bad_dates_form smith = Inl x)
         \<or> (map_of bad_dates_form ''check_in'' = Some ''2024-03-05''
            \<and> strptime env0 ''2024-03-05'' = Inr \<lparr>year = 2024, month = 3, day = 5\<rparr>
            \<and> map_of bad_dates_form ''check_out'' = Some ''2024-03-01''
            \<and> strptime env0 ''2024-03-01'' = Inr \<lparr>year = 2024, month = 3, day = 1\<rparr>
            \<and> date_key \<lparr>year = 2024, month = 3, day = 1\<rparr>
                \<le> date_key \<lparr>year = 2024, month = 3, day = 5\<rparr>)"
    using ci co le strptime_0305 strptime_0301 by simp
  from edit_failure_keeps_record[OF a r g f] a r g ci co le strptime_0305 strptime_0301
  show ?thesis by simp
qed

section \<open>Required fields\<close>










section \<open>The JSON listing\<close>






















end
